theory Spec2Isabelle
  imports Complex_Main "HOL-Library.AList" "HOL-Library.Word"
begin

section \<open>HttpSpacePrimitives: an HTTP client for a remote space of files\<close>

text \<open>
  A shallow embedding of the class \<open>HttpSpacePrimitives\<close>. Every method of the class
  is one definition with the method's name. A method returns a pair: what the promise
  settles to (\<open>Inl\<close> a thrown error, \<open>Inr\<close> the value) and the list of effects it had on
  the world, in the order they happened. Everything the class calls but does not define
  (the network, the page, helpers of other modules, the conversions of the runtime that
  are not written out here) is a field of the record \<open>host\<close>.

  Strings are lists of 8-bit characters: the embedding covers the strings whose code
  units are below 256. On these \<open>btoa\<close> never throws.
\<close>

subsection \<open>Values of the runtime\<close>

type_synonym bytes = "8 word list"

text \<open>
  The Number type. A finite value is the rational it denotes (every finite double is
  one); the sign of zero is not kept apart.
\<close>

datatype number = Finite rat | NaN | PosInfinity | NegInfinity

text \<open>What \<open>throw\<close> raises: \<open>Error msg\<close> is thrown by the class itself,
  \<open>ReferenceError\<close> by the runtime on a name that does not exist, and \<open>External\<close> is
  the rejection of a function outside the class (the network, a helper).\<close>

datatype error = Error string | ReferenceError string | External string

text \<open>\<open>FileData = ArrayBuffer | string\<close>, and the typed array that \<open>writeFile\<close> makes.\<close>

datatype FileData = Text string | ArrayBuffer bytes | Uint8Array bytes

datatype FileEncoding = utf8 | arraybuffer | dataurl

record FileMeta =
  name :: string
  fsize :: number
  contentType :: "string option"
  lastModified :: number
  perm :: string

text \<open>A plain object used as a header record: its keys in insertion order.\<close>

type_synonym header_record = "(string \<times> string) list"

record RequestInit =
  req_method :: string
  headers :: "header_record option"
  body :: "FileData option"

text \<open>A \<open>Headers\<close> object is its header list; \<open>Response\<close> has the fields the class reads.\<close>

record Response =
  status :: nat
  statusText :: string
  redirected :: bool
  resp_headers :: "(string \<times> string) list"
  resp_body :: bytes

datatype effect = Fetch string RequestInit | FlushCaches | Alert string | Reload

record host =
  location_defined :: bool
  alert_defined :: bool
  fetch :: "string \<Rightarrow> RequestInit \<Rightarrow> error + Response"
  flushCachesAndUnregisterServiceWorker :: "error option"
  json :: "bytes \<Rightarrow> error + FileMeta list"
  text_decode :: "bytes \<Rightarrow> string"
  encodeURI :: "string \<Rightarrow> string"
  mime_getType :: "string \<Rightarrow> string option"
  base64EncodedDataUrl :: "string \<Rightarrow> bytes \<Rightarrow> string"
  base64DecodeDataUrl :: "FileData \<Rightarrow> error + bytes"
  StringToNumber_other :: "string \<Rightarrow> number"
  NumberToString_other :: "number \<Rightarrow> string"

text \<open>The constructor's parameters; an optional one that was not given is \<open>None\<close>.\<close>

record HttpSpacePrimitives =
  url :: string
  expectedSpacePath :: "string option"
  user :: "string option"
  password :: "string option"

subsection \<open>Truthiness, unary plus, string conversion\<close>

definition truthy_string :: "string option \<Rightarrow> bool" where
  "truthy_string v = (case v of None \<Rightarrow> False | Some s \<Rightarrow> s \<noteq> [])"

definition truthy_number :: "number option \<Rightarrow> bool" where
  "truthy_number v =
     (case v of None \<Rightarrow> False
      | Some (Finite q) \<Rightarrow> q \<noteq> 0
      | Some NaN \<Rightarrow> False
      | Some PosInfinity \<Rightarrow> True
      | Some NegInfinity \<Rightarrow> True)"

text \<open>\<open>a || b\<close> on an optional string: \<open>b\<close> when \<open>a\<close> is null or empty.\<close>

definition or_string :: "string option \<Rightarrow> string \<Rightarrow> string" where
  "or_string v d = (case v of None \<Rightarrow> d | Some s \<Rightarrow> if s = [] then d else s)"

definition is_digit :: "char \<Rightarrow> bool" where
  "is_digit c = (48 \<le> (of_char c :: nat) \<and> (of_char c :: nat) \<le> 57)"

definition digits_value :: "string \<Rightarrow> nat" where
  "digits_value s = foldl (\<lambda>a c. 10 * a + ((of_char c :: nat) - 48)) 0 s"

text \<open>
  StringToNumber. The empty string is 0; a string of 1 to 15 decimal digits is the
  integer it writes (below \<open>2^53\<close>, so the Number holds it exactly); every other string
  (blanks, signs, fractions, exponents, other radixes, longer digit strings, text that
  gives NaN) goes to the host's conversion.
\<close>

definition StringToNumber :: "host \<Rightarrow> string \<Rightarrow> number" where
  "StringToNumber h s =
     (if s = [] then Finite 0
      else if list_all is_digit s \<and> length s \<le> 15 then Finite (of_nat (digits_value s))
      else StringToNumber_other h s)"

text \<open>Unary plus on \<open>string | null\<close>: \<open>+null\<close> is 0.\<close>

definition unary_plus :: "host \<Rightarrow> string option \<Rightarrow> number" where
  "unary_plus h v = (case v of None \<Rightarrow> Finite 0 | Some s \<Rightarrow> StringToNumber h s)"

definition digit_char :: "nat \<Rightarrow> char" where
  "digit_char n = ''0123456789'' ! (n mod 10)"

fun show_nat :: "nat \<Rightarrow> string" where
  "show_nat n =
     (if n < 10 then [digit_char n]
      else show_nat (n div 10) @ [digit_char (n mod 10)])"

declare show_nat.simps [simp del]

text \<open>
  \<open>"" + n\<close>. An integer of magnitude below \<open>10^15\<close> is written in decimal digits; the
  other finite values go to the host's conversion.
\<close>

definition NumberToString :: "host \<Rightarrow> number \<Rightarrow> string" where
  "NumberToString h n =
     (case n of
        Finite q \<Rightarrow>
          if of_int \<lfloor>q\<rfloor> = q \<and> \<bar>q\<bar> < 10 ^ 15
          then (if q < 0 then ''-'' @ show_nat (nat (- \<lfloor>q\<rfloor>)) else show_nat (nat \<lfloor>q\<rfloor>))
          else NumberToString_other h n
      | NaN \<Rightarrow> ''NaN''
      | PosInfinity \<Rightarrow> ''Infinity''
      | NegInfinity \<Rightarrow> ''-Infinity'')"

subsection \<open>\<open>btoa\<close>: base64 of a string of bytes\<close>

definition base64_alphabet :: string where
  "base64_alphabet = ''ABCDEFGHIJKLMNOPQRSTUVWXYZabcdefghijklmnopqrstuvwxyz0123456789+/''"

definition b64 :: "nat \<Rightarrow> char" where
  "b64 n = base64_alphabet ! (n mod 64)"

fun base64_encode :: "nat list \<Rightarrow> string" where
  "base64_encode [] = []"
| "base64_encode [a] = [b64 (a div 4), b64 ((a mod 4) * 16), CHR ''='', CHR ''='']"
| "base64_encode [a, b] =
     [b64 (a div 4), b64 ((a mod 4) * 16 + b div 16), b64 ((b mod 16) * 4), CHR ''='']"
| "base64_encode (a # b # c # r) =
     [b64 (a div 4), b64 ((a mod 4) * 16 + b div 16), b64 ((b mod 16) * 4 + c div 64),
      b64 (c mod 64)] @ base64_encode r"

definition btoa :: "string \<Rightarrow> string" where
  "btoa s = base64_encode (map of_char s)"

subsection \<open>\<open>Headers.get\<close>\<close>

definition to_lower :: "char \<Rightarrow> char" where
  "to_lower c =
     (case map_of (zip ''ABCDEFGHIJKLMNOPQRSTUVWXYZ'' ''abcdefghijklmnopqrstuvwxyz'') c of
        Some l \<Rightarrow> l
      | None \<Rightarrow> c)"

fun join_values :: "string list \<Rightarrow> string" where
  "join_values [] = []"
| "join_values [v] = v"
| "join_values (v # w # vs) = v @ '', '' @ join_values (w # vs)"

text \<open>
  \<open>get\<close> compares names without case and joins the values of a name that occurs
  several times with a comma and a space; a name that does not occur gives null.
\<close>

definition headers_get :: "(string \<times> string) list \<Rightarrow> string \<Rightarrow> string option" where
  "headers_get hs n =
     (let vs = map snd (filter (\<lambda>kv. map to_lower (fst kv) = map to_lower n) hs)
      in if vs = [] then None else Some (join_values vs))"

subsection \<open>The methods of the class\<close>

type_synonym 'a io = "(error + 'a) \<times> effect list"

text \<open>
  \<open>authenticatedFetch\<close>. With a user and a password (both truthy) the property
  \<open>cookie\<close> of \<open>options.headers\<close> is set, on a fresh record when the options had none:
  this first statement of the method is \<open>with_cookie\<close>. Then the request is sent. A
  rejected \<open>fetch\<close> rejects the call. On status 401 or a redirected response the page
  is reloaded when \<open>location\<close> exists, and the call throws.
\<close>

definition with_cookie :: "HttpSpacePrimitives \<Rightarrow> RequestInit \<Rightarrow> RequestInit" where
  "with_cookie this options =
     (case (user this, password this) of
        (Some u, Some p) \<Rightarrow>
          if u \<noteq> [] \<and> p \<noteq> [] then
            options\<lparr>headers :=
              Some (AList.update ''cookie'' (''auth='' @ btoa (u @ '':'' @ p))
                     (case headers options of None \<Rightarrow> [] | Some hs \<Rightarrow> hs))\<rparr>
          else options
      | _ \<Rightarrow> options)"

definition authenticatedFetch ::
  "host \<Rightarrow> HttpSpacePrimitives \<Rightarrow> string \<Rightarrow> RequestInit \<Rightarrow> Response io" where
  "authenticatedFetch h this u options =
     (let options' = with_cookie this options in
      case fetch h u options' of
        Inl e \<Rightarrow> (Inl e, [Fetch u options'])
      | Inr result \<Rightarrow>
          if status result = 401 \<or> redirected result then
            (Inl (Error ''Unauthorized''),
             Fetch u options' # (if location_defined h then [Reload] else []))
          else (Inr result, [Fetch u options']))"

text \<open>
  \<open>fetchFileList\<close>. On a mismatch of the space path the caches are flushed, then
  \<open>alert(...)\<close> and \<open>location.reload()\<close> are called, neither with a test that the
  name exists: in a host without \<open>alert\<close> the call throws there, before any alert,
  and in a host with \<open>alert\<close> but without \<open>location\<close> it throws after the alert.
  Nothing is thrown or returned after the reload, so the method goes on to
  \<open>req.json()\<close>.
\<close>

definition space_path_alert :: string where
  "space_path_alert = ''Space folder path different on server, reloading the page''"

definition fetchFileList :: "host \<Rightarrow> HttpSpacePrimitives \<Rightarrow> FileMeta list io" where
  "fetchFileList h this =
     (case authenticatedFetch h this (url this)
             \<lparr>req_method = ''GET'', headers = None, body = None\<rparr> of
        (Inl e, effs) \<Rightarrow> (Inl e, effs)
      | (Inr req, effs) \<Rightarrow>
          if truthy_string (expectedSpacePath this) \<and>
             headers_get (resp_headers req) ''X-Space-Path'' \<noteq> expectedSpacePath this
          then
            (case flushCachesAndUnregisterServiceWorker h of
               Some e \<Rightarrow> (Inl e, effs @ [FlushCaches])
             | None \<Rightarrow>
                 if \<not> alert_defined h
                 then (Inl (ReferenceError ''alert is not defined''),
                       effs @ [FlushCaches])
                 else if location_defined h
                 then (json h (resp_body req),
                       effs @ [FlushCaches, Alert space_path_alert, Reload])
                 else (Inl (ReferenceError ''location is not defined''),
                       effs @ [FlushCaches, Alert space_path_alert]))
          else (json h (resp_body req), effs))"

definition file_url :: "host \<Rightarrow> HttpSpacePrimitives \<Rightarrow> string \<Rightarrow> string" where
  "file_url h this nm = url this @ ''/'' @ encodeURI h nm"

definition responseToMeta :: "host \<Rightarrow> string \<Rightarrow> Response \<Rightarrow> FileMeta" where
  "responseToMeta h nm res =
     \<lparr>name = nm,
      fsize = unary_plus h (headers_get (resp_headers res) ''X-Content-Length''),
      contentType = headers_get (resp_headers res) ''Content-type'',
      lastModified =
        unary_plus h (Some (or_string (headers_get (resp_headers res) ''X-Last-Modified'') ''0'')),
      perm = or_string (headers_get (resp_headers res) ''X-Permission'') ''rw''\<rparr>"

definition readFile ::
  "host \<Rightarrow> HttpSpacePrimitives \<Rightarrow> string \<Rightarrow> FileEncoding \<Rightarrow> (FileData option \<times> FileMeta) io"
where
  "readFile h this nm encoding =
     (case authenticatedFetch h this (file_url h this nm)
             \<lparr>req_method = ''GET'', headers = None, body = None\<rparr> of
        (Inl e, effs) \<Rightarrow> (Inl e, effs)
      | (Inr res, effs) \<Rightarrow>
          if status res = 404 then (Inl (Error ''Page not found''), effs)
          else
            (Inr (case encoding of
                    arraybuffer \<Rightarrow> Some (ArrayBuffer (resp_body res))
                  | dataurl \<Rightarrow>
                      Some (Text (base64EncodedDataUrl h
                              (or_string (mime_getType h nm) ''application/octet-stream'')
                              (resp_body res)))
                  | utf8 \<Rightarrow> Some (Text (text_decode h (resp_body res))),
                  responseToMeta h nm res),
             effs))"

text \<open>
  \<open>writeFile\<close>, in three steps: the \<open>switch\<close> that computes \<open>body\<close>
  (\<open>writeFile_body\<close>), the header record (\<open>writeFile_headers\<close>), the request. The
  variable \<open>body\<close> starts as null. The cases \<open>arraybuffer\<close> and \<open>utf8\<close> assign it; the
  case \<open>dataurl\<close> assigns the decoded bytes to \<open>data\<close>, which is not read again, so
  there \<open>body\<close> is still null when the request is built. A decoder that throws ends
  the call before any request. The header \<open>X-Last-Modified\<close> is set under
  \<open>if (lastModified)\<close>, which the numbers 0 and NaN do not pass.
\<close>

definition writeFile_body :: "host \<Rightarrow> FileEncoding \<Rightarrow> FileData \<Rightarrow> error + FileData option" where
  "writeFile_body h encoding data =
     (case encoding of
        arraybuffer \<Rightarrow> Inr (Some (case data of ArrayBuffer b \<Rightarrow> Uint8Array b | _ \<Rightarrow> data))
      | utf8 \<Rightarrow> Inr (Some data)
      | dataurl \<Rightarrow>
          (case base64DecodeDataUrl h data of Inl e \<Rightarrow> Inl e | Inr data' \<Rightarrow> Inr None))"

definition writeFile_headers :: "host \<Rightarrow> number option \<Rightarrow> header_record" where
  "writeFile_headers h lm =
     (let hs = [(''Content-Type'', ''application/octet-stream'')] in
      if truthy_number lm then
        (case lm of
           Some n \<Rightarrow> AList.update ''X-Last-Modified'' (NumberToString h n) hs
         | None \<Rightarrow> hs)
      else hs)"

definition writeFile ::
  "host \<Rightarrow> HttpSpacePrimitives \<Rightarrow> string \<Rightarrow> FileEncoding \<Rightarrow> FileData \<Rightarrow> bool option \<Rightarrow>
   number option \<Rightarrow> FileMeta io" where
  "writeFile h this nm encoding data selfUpdate lm =
     (case writeFile_body h encoding data of
        Inl e \<Rightarrow> (Inl e, [])
      | Inr b \<Rightarrow>
          (case authenticatedFetch h this (file_url h this nm)
                  \<lparr>req_method = ''PUT'', headers = Some (writeFile_headers h lm), body = b\<rparr> of
             (Inl e, effs) \<Rightarrow> (Inl e, effs)
           | (Inr res, effs) \<Rightarrow> (Inr (responseToMeta h nm res), effs)))"

definition deleteFile :: "host \<Rightarrow> HttpSpacePrimitives \<Rightarrow> string \<Rightarrow> unit io" where
  "deleteFile h this nm =
     (case authenticatedFetch h this (file_url h this nm)
             \<lparr>req_method = ''DELETE'', headers = None, body = None\<rparr> of
        (Inl e, effs) \<Rightarrow> (Inl e, effs)
      | (Inr req, effs) \<Rightarrow>
          if status req \<noteq> 200
          then (Inl (Error (''Failed to delete file: '' @ statusText req)), effs)
          else (Inr (), effs))"

definition getFileMeta :: "host \<Rightarrow> HttpSpacePrimitives \<Rightarrow> string \<Rightarrow> FileMeta io" where
  "getFileMeta h this nm =
     (case authenticatedFetch h this (file_url h this nm)
             \<lparr>req_method = ''OPTIONS'', headers = None, body = None\<rparr> of
        (Inl e, effs) \<Rightarrow> (Inl e, effs)
      | (Inr res, effs) \<Rightarrow>
          if status res = 404 then (Inl (Error ''File not found''), effs)
          else (Inr (responseToMeta h nm res), effs))"

definition proxySyscall :: "unit io" where
  "proxySyscall = (Inl (Error ''Not supported''), [])"

definition invokeFunction :: "unit io" where
  "invokeFunction = (Inl (Error ''Not supported''), [])"

subsection \<open>Decoding a data URL\<close>

text \<open>
  Modelled from the spec: \<open>base64DecodeDataUrl\<close>, of the module
  \<open>plugos/asset_bundle/base64.ts\<close>, which is not among the sources. The spec has it
  "decode the data URL back into raw bytes": the base64 text after the first comma,
  four characters to three bytes, the padding dropped. The class reaches a decoder only
  through the host; this one is the decoder of the example host below.
\<close>

definition b64_value :: "char \<Rightarrow> nat option" where
  "b64_value c =
     (let n = (of_char c :: nat) in
      if 65 \<le> n \<and> n \<le> 90 then Some (n - 65)
      else if 97 \<le> n \<and> n \<le> 122 then Some (n - 71)
      else if 48 \<le> n \<and> n \<le> 57 then Some (n + 4)
      else if c = CHR ''+'' then Some 62
      else if c = CHR ''/'' then Some 63
      else None)"

fun base64_decode_values :: "nat list \<Rightarrow> bytes" where
  "base64_decode_values (a # b # c # d # r) =
     [of_nat (a * 4 + b div 16), of_nat ((b mod 16) * 16 + c div 4),
      of_nat ((c mod 4) * 64 + d)] @ base64_decode_values r"
| "base64_decode_values [a, b, c] =
     [of_nat (a * 4 + b div 16), of_nat ((b mod 16) * 16 + c div 4)]"
| "base64_decode_values [a, b] = [of_nat (a * 4 + b div 16)]"
| "base64_decode_values _ = []"

definition base64DecodeDataUrl_spec :: "FileData \<Rightarrow> error + bytes" where
  "base64DecodeDataUrl_spec d =
     (case d of
        Text s \<Rightarrow>
          (case dropWhile (\<lambda>c. c \<noteq> CHR '','') s of
             [] \<Rightarrow> Inl (External ''not a data URL'')
           | _ # payload \<Rightarrow>
               (case those (map b64_value (takeWhile (\<lambda>c. c \<noteq> CHR ''='') payload)) of
                  None \<Rightarrow> Inl (External ''not base64'')
                | Some vs \<Rightarrow> Inr (base64_decode_values vs)))
      | _ \<Rightarrow> Inl (External ''not a string''))"

subsection \<open>Operations, and what the network answered\<close>

text \<open>The five operations of the interface, to speak of all of them at once.\<close>

datatype operation =
    ListFiles
  | ReadFile string FileEncoding
  | WriteFile string FileEncoding FileData "bool option" "number option"
  | DeleteFile string
  | StatFile string

definition settle :: "'a io \<Rightarrow> error option \<times> effect list" where
  "settle r = (case fst r of Inl e \<Rightarrow> Some e | Inr v \<Rightarrow> None, snd r)"

definition run :: "host \<Rightarrow> HttpSpacePrimitives \<Rightarrow> operation \<Rightarrow> error option \<times> effect list" where
  "run h this op =
     (case op of
        ListFiles \<Rightarrow> settle (fetchFileList h this)
      | ReadFile nm encoding \<Rightarrow> settle (readFile h this nm encoding)
      | WriteFile nm encoding data selfUpdate lm \<Rightarrow>
          settle (writeFile h this nm encoding data selfUpdate lm)
      | DeleteFile nm \<Rightarrow> settle (deleteFile h this nm)
      | StatFile nm \<Rightarrow> settle (getFileMeta h this nm))"

text \<open>The answers of the network to the requests of an effect list, in order.\<close>

fun responses :: "host \<Rightarrow> effect list \<Rightarrow> (error + Response) list" where
  "responses h [] = []"
| "responses h (Fetch u options # es) = fetch h u options # responses h es"
| "responses h (e # es) = responses h es"

text \<open>The requests of an effect list, in order.\<close>

fun requests :: "effect list \<Rightarrow> RequestInit list" where
  "requests [] = []"
| "requests (Fetch u options # es) = options # requests es"
| "requests (e # es) = requests es"

definition auth_failure :: "Response \<Rightarrow> bool" where
  "auth_failure r = (status r = 401 \<or> redirected r)"

subsection \<open>An example host\<close>

text \<open>
  A host whose network answers every request with the same response, and whose helpers
  are simple ones; the concrete runs below use it. It is a browser (with \<open>alert\<close> and
  \<open>location\<close>) or a runtime with neither. Its \<open>json\<close> reads two documents, the empty
  array and the array \<open>example_list_body\<close> of one file, and rejects every other body,
  the empty one too.
\<close>

definition example_list :: "FileMeta list" where
  "example_list =
     [\<lparr>name = ''index.md'', fsize = Finite 5, contentType = Some ''text/markdown'',
       lastModified = Finite 1, perm = ''rw''\<rparr>]"

definition example_list_body :: bytes where
  \<open>example_list_body =
     map of_char
       ''[{"name":"index.md","size":5,"contentType":"text/markdown","lastModified":1,"perm":"rw"}]''\<close>

definition example_json :: "bytes \<Rightarrow> error + FileMeta list" where
  "example_json b =
     (if b = example_list_body then Inr example_list
      else if b = map of_char ''[]'' then Inr []
      else Inl (External ''SyntaxError''))"

definition example_host :: "bool \<Rightarrow> Response \<Rightarrow> host" where
  "example_host loc r =
     \<lparr>location_defined = loc,
      alert_defined = loc,
      fetch = (\<lambda>u options. Inr r),
      flushCachesAndUnregisterServiceWorker = None,
      json = example_json,
      text_decode = map (\<lambda>w. char_of (unat w)),
      encodeURI = (\<lambda>s. s),
      mime_getType = (\<lambda>nm. None),
      base64EncodedDataUrl =
        (\<lambda>m b. ''data:'' @ m @ '';base64,'' @ base64_encode (map unat b)),
      base64DecodeDataUrl = base64DecodeDataUrl_spec,
      StringToNumber_other = (\<lambda>s. NaN),
      NumberToString_other = (\<lambda>n. ''1e+21'')\<rparr>"

definition example_response :: "nat \<Rightarrow> bool \<Rightarrow> (string \<times> string) list \<Rightarrow> Response" where
  "example_response st rd hs =
     \<lparr>status = st, statusText = (if st = 200 then ''OK'' else ''Gone''), redirected = rd,
      resp_headers = hs, resp_body = []\<rparr>"

definition example_space :: HttpSpacePrimitives where
  "example_space =
     \<lparr>url = ''http://host/fs'', expectedSpacePath = Some ''/space'', user = None,
      password = None\<rparr>"

section \<open>Properties\<close>

subsection \<open>What \<open>authenticatedFetch\<close> does, by cases\<close>

lemmas example_defs = example_host_def example_response_def example_space_def

lemmas method_defs = authenticatedFetch_def with_cookie_def file_url_def

lemma authenticatedFetch_cases:
  "authenticatedFetch h this u options =
     (case fetch h u (with_cookie this options) of
        Inl e \<Rightarrow> (Inl e, [Fetch u (with_cookie this options)])
      | Inr r \<Rightarrow>
          if auth_failure r
          then (Inl (Error ''Unauthorized''),
                Fetch u (with_cookie this options) #
                  (if location_defined h then [Reload] else []))
          else (Inr r, [Fetch u (with_cookie this options)]))"
  by (simp add: authenticatedFetch_def auth_failure_def Let_def split: sum.splits)

subsection \<open>The body of a write\<close>

lemma writeFile_body_dataurl: "writeFile_body h dataurl d = Inr b \<Longrightarrow> b = None"
  by (auto simp: writeFile_body_def split: sum.splits)

lemma with_cookie_body: "body (with_cookie this options) = body options"
  by (simp add: with_cookie_def split: option.splits)

text \<open>Whatever the host and the data: a request of a \<open>dataurl\<close> write has no body.\<close>

lemma writeFile_dataurl_requests:
  "options \<in> set (requests (snd (writeFile h this nm dataurl d selfUpdate lm))) \<Longrightarrow>
   body options = None"
  by (auto simp add: writeFile_def authenticatedFetch_cases with_cookie_body
      dest: writeFile_body_dataurl split: sum.splits if_splits)

lemma decode_AAAA:
  "base64DecodeDataUrl_spec (Text ''data:image/png;base64,AAAA'') = Inr [0, 0, 0]"
  by (simp add: base64DecodeDataUrl_spec_def b64_value_def)

text \<open>
  C1. The claim: a write with the encoding \<open>dataurl\<close> sends as request body the bytes
  that the data URL decodes to. The code does not: at the write of
  \<open>data:image/png;base64,AAAA\<close>, whose payload decodes to three zero bytes, the one
  request that is sent has the body null.
\<close>

theorem writeFile_dataurl_body_is_null:
  "base64DecodeDataUrl_spec (Text ''data:image/png;base64,AAAA'') = Inr [0, 0, 0] \<and>
   map body (requests (snd (writeFile (example_host True (example_response 200 False []))
       example_space ''img/a.png'' dataurl (Text ''data:image/png;base64,AAAA'') None None)))
     = [None]"
  by (simp add: decode_AAAA writeFile_def writeFile_body_def writeFile_headers_def
      truthy_number_def method_defs example_defs)

subsection \<open>The metadata of a response\<close>

lemma StringToNumber_zero: "StringToNumber h ''0'' = Finite 0"
  by (simp add: StringToNumber_def is_digit_def digits_value_def)

lemma headers_get_Nil: "headers_get [] n = None"
  by (simp add: headers_get_def)

text \<open>
  C4. \<open>responseToMeta\<close> has no failing branch: it is a function from a name and a
  response to a \<open>FileMeta\<close>, whatever the headers are. Where the header
  \<open>X-Content-Length\<close> is absent the size is 0, where \<open>X-Last-Modified\<close> is absent the
  time is 0, and where \<open>X-Permission\<close> is absent the permission is \<open>rw\<close>.
\<close>

theorem responseToMeta_defaults:
  "(\<exists>m. responseToMeta h nm res = m) \<and>
   (headers_get (resp_headers res) ''X-Content-Length'' = None \<longrightarrow>
      fsize (responseToMeta h nm res) = Finite 0) \<and>
   (headers_get (resp_headers res) ''X-Last-Modified'' = None \<longrightarrow>
      lastModified (responseToMeta h nm res) = Finite 0) \<and>
   (headers_get (resp_headers res) ''X-Permission'' = None \<longrightarrow>
      perm (responseToMeta h nm res) = ''rw'')"
  by (simp add: responseToMeta_def unary_plus_def or_string_def StringToNumber_zero)

theorem responseToMeta_defaults_witness:
  "headers_get (resp_headers (example_response 200 False [])) ''X-Content-Length'' = None \<and>
   headers_get (resp_headers (example_response 200 False [])) ''X-Last-Modified'' = None \<and>
   headers_get (resp_headers (example_response 200 False [])) ''X-Permission'' = None \<and>
   fsize (responseToMeta (example_host True (example_response 200 False [])) ''a.md''
            (example_response 200 False [])) = Finite 0 \<and>
   lastModified (responseToMeta (example_host True (example_response 200 False [])) ''a.md''
            (example_response 200 False [])) = Finite 0 \<and>
   perm (responseToMeta (example_host True (example_response 200 False [])) ''a.md''
            (example_response 200 False [])) = ''rw''"
  using responseToMeta_defaults
    [of "example_host True (example_response 200 False [])" "''a.md''"
        "example_response 200 False []"]
  by (simp add: example_response_def headers_get_Nil)

text \<open>
  C10. A header \<open>X-Permission\<close> that is present and not empty is the permission of the
  metadata as it stands, whatever its text; an absent or empty one gives \<open>rw\<close>.
\<close>

theorem responseToMeta_perm:
  "(headers_get (resp_headers res) ''X-Permission'' = Some v \<and> v \<noteq> [] \<longrightarrow>
      perm (responseToMeta h nm res) = v) \<and>
   (headers_get (resp_headers res) ''X-Permission'' = None \<or>
    headers_get (resp_headers res) ''X-Permission'' = Some [] \<longrightarrow>
      perm (responseToMeta h nm res) = ''rw'')"
  by (auto simp add: responseToMeta_def or_string_def)

theorem responseToMeta_perm_witness:
  "headers_get (resp_headers (example_response 200 False [(''x-permission'', ''admin'')]))
     ''X-Permission'' = Some ''admin'' \<and>
   perm (responseToMeta (example_host True (example_response 200 False []))
          ''a.md'' (example_response 200 False [(''x-permission'', ''admin'')])) = ''admin'' \<and>
   headers_get (resp_headers (example_response 200 False [(''X-Permission'', '''')]))
     ''X-Permission'' = Some [] \<and>
   perm (responseToMeta (example_host True (example_response 200 False []))
          ''a.md'' (example_response 200 False [(''X-Permission'', '''')])) = ''rw''"
  using responseToMeta_perm
    [of "example_response 200 False [(''x-permission'', ''admin'')]" "''admin''"
        "example_host True (example_response 200 False [])" "''a.md''"]
    responseToMeta_perm
    [of "example_response 200 False [(''X-Permission'', '''')]" "''''"
        "example_host True (example_response 200 False [])" "''a.md''"]
  by (simp add: example_response_def headers_get_def to_lower_def)

text \<open>
  C9. The name of the metadata that a successful read, write or stat returns is the
  name the caller gave; \<open>responseToMeta\<close> takes it from its argument and never from
  the response.
\<close>

theorem returned_name_is_argument:
  "name (responseToMeta h nm res) = nm \<and>
   (fst (readFile h this nm encoding) = Inr (d, m1) \<longrightarrow> name m1 = nm) \<and>
   (fst (writeFile h this nm encoding data selfUpdate lm) = Inr m2 \<longrightarrow> name m2 = nm) \<and>
   (fst (getFileMeta h this nm) = Inr m3 \<longrightarrow> name m3 = nm)"
proof -
  have meta: "\<And>r. name (responseToMeta h nm r) = nm"
    by (simp add: responseToMeta_def)
  have rd: "fst (readFile h this nm encoding) = Inr (d, m1) \<Longrightarrow> name m1 = nm"
    by (auto simp add: readFile_def meta split: prod.splits sum.splits if_splits)
  have wr: "fst (writeFile h this nm encoding data selfUpdate lm) = Inr m2 \<Longrightarrow> name m2 = nm"
    by (auto simp add: writeFile_def meta split: prod.splits sum.splits)
  have st: "fst (getFileMeta h this nm) = Inr m3 \<Longrightarrow> name m3 = nm"
    by (auto simp add: getFileMeta_def meta split: prod.splits sum.splits if_splits)
  from meta rd wr st show ?thesis by blast
qed

theorem returned_name_is_argument_witness:
  "fst (readFile (example_host True (example_response 200 False [(''Name'', ''other.md'')]))
         example_space ''notes/a.md'' utf8)
     = Inr (Some (Text []),
            \<lparr>name = ''notes/a.md'', fsize = Finite 0, contentType = None,
             lastModified = Finite 0, perm = ''rw''\<rparr>) \<and>
   fst (writeFile (example_host True (example_response 200 False [(''Name'', ''other.md'')]))
         example_space ''notes/a.md'' utf8 (Text ''hello'') None None)
     = Inr \<lparr>name = ''notes/a.md'', fsize = Finite 0, contentType = None,
             lastModified = Finite 0, perm = ''rw''\<rparr> \<and>
   fst (getFileMeta (example_host True (example_response 200 False [(''Name'', ''other.md'')]))
         example_space ''notes/a.md'')
     = Inr \<lparr>name = ''notes/a.md'', fsize = Finite 0, contentType = None,
             lastModified = Finite 0, perm = ''rw''\<rparr> \<and>
   name \<lparr>name = ''notes/a.md'', fsize = Finite 0, contentType = None,
         lastModified = Finite 0, perm = ''rw''\<rparr> = ''notes/a.md''"
  using returned_name_is_argument
    [where h = "example_host True (example_response 200 False [(''Name'', ''other.md'')])"
       and this = example_space and nm = "''notes/a.md''" and encoding = utf8
       and data = "Text ''hello''" and selfUpdate = None and lm = None
       and d = "Some (Text [])"
       and ?m1.0 = "\<lparr>name = ''notes/a.md'', fsize = Finite 0, contentType = None,
             lastModified = Finite 0, perm = ''rw''\<rparr>"
       and ?m2.0 = "\<lparr>name = ''notes/a.md'', fsize = Finite 0, contentType = None,
             lastModified = Finite 0, perm = ''rw''\<rparr>"
       and ?m3.0 = "\<lparr>name = ''notes/a.md'', fsize = Finite 0, contentType = None,
             lastModified = Finite 0, perm = ''rw''\<rparr>"]
  by (simp add: readFile_def writeFile_def getFileMeta_def writeFile_body_def
      writeFile_headers_def truthy_number_def responseToMeta_def unary_plus_def or_string_def
      StringToNumber_zero headers_get_def to_lower_def method_defs example_defs)

subsection \<open>The headers of a write\<close>







subsection \<open>Statuses 404 and 200\<close>

lemma readFile_responses:
  "responses h (snd (readFile h this nm encoding)) =
     [fetch h (file_url h this nm)
        (with_cookie this \<lparr>req_method = ''GET'', headers = None, body = None\<rparr>)]"
  by (simp add: readFile_def authenticatedFetch_cases split: sum.splits)

lemma getFileMeta_responses:
  "responses h (snd (getFileMeta h this nm)) =
     [fetch h (file_url h this nm)
        (with_cookie this \<lparr>req_method = ''OPTIONS'', headers = None, body = None\<rparr>)]"
  by (simp add: getFileMeta_def authenticatedFetch_cases split: sum.splits)

lemma deleteFile_responses:
  "responses h (snd (deleteFile h this nm)) =
     [fetch h (file_url h this nm)
        (with_cookie this \<lparr>req_method = ''DELETE'', headers = None, body = None\<rparr>)]"
  by (simp add: deleteFile_def authenticatedFetch_cases split: sum.splits)

text \<open>
  C6, as the code has it. When the response to a read has status 404, the read fails
  with the error \<open>Page not found\<close> if the response was not redirected, and with
  \<open>Unauthorized\<close> if it was: \<open>authenticatedFetch\<close> looks at the response first. The
  same for stat, with \<open>File not found\<close>. Either way no data or metadata is returned.
\<close>

theorem not_found_on_404:
  "(responses h (snd (readFile h this nm encoding)) = [Inr r] \<and> status r = 404 \<longrightarrow>
      fst (readFile h this nm encoding) =
        Inl (Error (if redirected r then ''Unauthorized'' else ''Page not found''))) \<and>
   (responses h (snd (getFileMeta h this nm)) = [Inr r] \<and> status r = 404 \<longrightarrow>
      fst (getFileMeta h this nm) =
        Inl (Error (if redirected r then ''Unauthorized'' else ''File not found'')))"
proof (intro conjI impI)
  assume a: "responses h (snd (readFile h this nm encoding)) = [Inr r] \<and> status r = 404"
  then have "fetch h (file_url h this nm)
      (with_cookie this \<lparr>req_method = ''GET'', headers = None, body = None\<rparr>) = Inr r"
    by (simp add: readFile_responses)
  with a show "fst (readFile h this nm encoding) =
      Inl (Error (if redirected r then ''Unauthorized'' else ''Page not found''))"
    by (simp add: readFile_def authenticatedFetch_cases auth_failure_def)
next
  assume a: "responses h (snd (getFileMeta h this nm)) = [Inr r] \<and> status r = 404"
  then have "fetch h (file_url h this nm)
      (with_cookie this \<lparr>req_method = ''OPTIONS'', headers = None, body = None\<rparr>) = Inr r"
    by (simp add: getFileMeta_responses)
  with a show "fst (getFileMeta h this nm) =
      Inl (Error (if redirected r then ''Unauthorized'' else ''File not found''))"
    by (simp add: getFileMeta_def authenticatedFetch_cases auth_failure_def)
qed

theorem not_found_on_404_witness:
  "responses (example_host True (example_response 404 False []))
     (snd (readFile (example_host True (example_response 404 False [])) example_space
            ''notes/a.md'' utf8)) = [Inr (example_response 404 False [])] \<and>
   responses (example_host True (example_response 404 False []))
     (snd (getFileMeta (example_host True (example_response 404 False [])) example_space
            ''notes/a.md'')) = [Inr (example_response 404 False [])] \<and>
   status (example_response 404 False []) = 404 \<and>
   fst (readFile (example_host True (example_response 404 False [])) example_space
          ''notes/a.md'' utf8) = Inl (Error ''Page not found'') \<and>
   fst (getFileMeta (example_host True (example_response 404 False [])) example_space
          ''notes/a.md'') = Inl (Error ''File not found'')"
  using not_found_on_404
    [of "example_host True (example_response 404 False [])" example_space "''notes/a.md''"
        utf8 "example_response 404 False []"]
  by (simp add: readFile_responses getFileMeta_responses example_defs)

text \<open>
  The claim as it was written fails at a response with status 404 that was redirected:
  the read fails, but with \<open>Unauthorized\<close>, and the page is reloaded.
\<close>

theorem readFile_404_redirected_is_unauthorized:
  "status (example_response 404 True []) = 404 \<and>
   readFile (example_host True (example_response 404 True [])) example_space ''notes/a.md'' utf8
     = (Inl (Error ''Unauthorized''),
        [Fetch ''http://host/fs/notes/a.md'' \<lparr>req_method = ''GET'', headers = None, body = None\<rparr>,
         Reload])"
  by (simp add: readFile_def method_defs example_defs)

text \<open>
  C7, as the code has it. When the response to a delete is neither a 401 nor redirected,
  status 200 is success and every other status fails with the error
  \<open>Failed to delete file:\<close> followed by the status text. A response with status 401,
  or a redirected one (also with status 200), fails with \<open>Unauthorized\<close> instead.
\<close>

theorem deleteFile_outcome:
  "responses h (snd (deleteFile h this nm)) = [Inr r] \<longrightarrow>
     fst (deleteFile h this nm) =
       (if status r = 401 \<or> redirected r then Inl (Error ''Unauthorized'')
        else if status r = 200 then Inr ()
        else Inl (Error (''Failed to delete file: '' @ statusText r)))"
proof
  assume "responses h (snd (deleteFile h this nm)) = [Inr r]"
  then have "fetch h (file_url h this nm)
      (with_cookie this \<lparr>req_method = ''DELETE'', headers = None, body = None\<rparr>) = Inr r"
    by (simp add: deleteFile_responses)
  then show "fst (deleteFile h this nm) =
       (if status r = 401 \<or> redirected r then Inl (Error ''Unauthorized'')
        else if status r = 200 then Inr ()
        else Inl (Error (''Failed to delete file: '' @ statusText r)))"
    by (simp add: deleteFile_def authenticatedFetch_cases auth_failure_def)
qed

theorem deleteFile_outcome_witness:
  "responses (example_host True (example_response 200 False []))
     (snd (deleteFile (example_host True (example_response 200 False [])) example_space
            ''notes/a.md'')) = [Inr (example_response 200 False [])] \<and>
   fst (deleteFile (example_host True (example_response 200 False [])) example_space
          ''notes/a.md'') = Inr () \<and>
   responses (example_host True (example_response 410 False []))
     (snd (deleteFile (example_host True (example_response 410 False [])) example_space
            ''notes/a.md'')) = [Inr (example_response 410 False [])] \<and>
   fst (deleteFile (example_host True (example_response 410 False [])) example_space
          ''notes/a.md'') = Inl (Error ''Failed to delete file: Gone'')"
  using deleteFile_outcome
    [of "example_host True (example_response 200 False [])" example_space "''notes/a.md''"
        "example_response 200 False []"]
    deleteFile_outcome
    [of "example_host True (example_response 410 False [])" example_space "''notes/a.md''"
        "example_response 410 False []"]
  by (simp add: deleteFile_responses example_defs)

text \<open>
  The claim as it was written fails at status 401: it is not 200, and the error is
  \<open>Unauthorized\<close>, without the status text.
\<close>

theorem deleteFile_401_is_unauthorized:
  "status (example_response 401 False []) \<noteq> 200 \<and>
   fst (deleteFile (example_host True (example_response 401 False [])) example_space
          ''notes/a.md'') = Inl (Error ''Unauthorized'') \<and>
   fst (deleteFile (example_host True (example_response 401 False [])) example_space
          ''notes/a.md'') \<noteq>
     Inl (Error (''Failed to delete file: '' @ statusText (example_response 401 False [])))"
  by (simp add: deleteFile_def method_defs example_defs)

subsection \<open>The authentication cookie\<close>








subsection \<open>A response that fails the authentication\<close>

lemma run_responses_cases:
  "responses h (snd (run h this op)) = [Inr r] \<Longrightarrow> auth_failure r \<Longrightarrow>
   \<exists>u options. run h this op =
     (Some (Error ''Unauthorized''),
      Fetch u options # (if location_defined h then [Reload] else []))"
  by (cases op)
     (auto simp add: run_def settle_def fetchFileList_def readFile_def writeFile_def
        deleteFile_def getFileMeta_def authenticatedFetch_cases
        split: sum.splits if_splits option.splits)

text \<open>
  C3, as the code has it. Whatever the operation, when the response to its request has
  status 401 or was redirected, the call fails with the error \<open>Unauthorized\<close>, and
  after the request nothing happens but the reload of the page, once, in a host that has
  \<open>location\<close>; in a host that has none there is no reload at all.
\<close>

theorem unauthorized_every_operation:
  "responses h (snd (run h this op)) = [Inr r] \<and> (status r = 401 \<or> redirected r) \<longrightarrow>
     fst (run h this op) = Some (Error ''Unauthorized'') \<and>
     tl (snd (run h this op)) = (if location_defined h then [Reload] else []) \<and>
     count_list (snd (run h this op)) Reload = (if location_defined h then 1 else 0)"
proof
  assume a: "responses h (snd (run h this op)) = [Inr r] \<and> (status r = 401 \<or> redirected r)"
  then have "auth_failure r" by (simp add: auth_failure_def)
  with a run_responses_cases [of h this op r]
  obtain u options where "run h this op =
     (Some (Error ''Unauthorized''),
      Fetch u options # (if location_defined h then [Reload] else []))"
    by blast
  then show "fst (run h this op) = Some (Error ''Unauthorized'') \<and>
     tl (snd (run h this op)) = (if location_defined h then [Reload] else []) \<and>
     count_list (snd (run h this op)) Reload = (if location_defined h then 1 else 0)"
    by simp
qed

theorem unauthorized_every_operation_witness:
  "responses (example_host True (example_response 401 False []))
     (snd (run (example_host True (example_response 401 False [])) example_space
        (WriteFile ''notes/a.md'' utf8 (Text ''hello'') None None)))
     = [Inr (example_response 401 False [])] \<and>
   status (example_response 401 False []) = 401 \<and>
   run (example_host True (example_response 401 False [])) example_space
        (WriteFile ''notes/a.md'' utf8 (Text ''hello'') None None)
     = (Some (Error ''Unauthorized''),
        [Fetch ''http://host/fs/notes/a.md''
           \<lparr>req_method = ''PUT'',
            headers = Some [(''Content-Type'', ''application/octet-stream'')],
            body = Some (Text ''hello'')\<rparr>,
         Reload]) \<and>
   count_list (snd (run (example_host True (example_response 401 False [])) example_space
        (WriteFile ''notes/a.md'' utf8 (Text ''hello'') None None))) Reload = 1"
  using unauthorized_every_operation
    [of "example_host True (example_response 401 False [])" example_space
        "WriteFile ''notes/a.md'' utf8 (Text ''hello'') None None"
        "example_response 401 False []"]
  by (simp add: run_def settle_def writeFile_def writeFile_body_def writeFile_headers_def
      truthy_number_def method_defs example_defs)

text \<open>
  The claim as it was written fails in a host without \<open>location\<close>: the response has
  status 401, the delete fails with \<open>Unauthorized\<close>, and no reload happens.
\<close>

theorem unauthorized_without_location_no_reload:
  "status (example_response 401 False []) = 401 \<and>
   deleteFile (example_host False (example_response 401 False [])) example_space ''notes/a.md''
     = (Inl (Error ''Unauthorized''),
        [Fetch ''http://host/fs/notes/a.md''
           \<lparr>req_method = ''DELETE'', headers = None, body = None\<rparr>]) \<and>
   count_list (snd (deleteFile (example_host False (example_response 401 False []))
        example_space ''notes/a.md'')) Reload = 0"
  by (simp add: deleteFile_def method_defs example_defs)

subsection \<open>A list of files from another space\<close>

lemma fetchFileList_responses:
  "responses h (snd (fetchFileList h this)) =
     [fetch h (url this) (with_cookie this \<lparr>req_method = ''GET'', headers = None, body = None\<rparr>)]"
  by (simp add: fetchFileList_def authenticatedFetch_cases
      split: sum.splits option.splits)

text \<open>
  C2, as the code has it. Let an expected space path be configured (not empty) and let
  the response to the list request pass the authentication and have a header
  \<open>X-Space-Path\<close> that differs from it (or none). Then the caches are flushed first.
  If the flush fails the call fails with its error. In a host without \<open>alert\<close> the
  call fails next, with no alert and no reload. In a host with \<open>alert\<close> the user is
  alerted; without \<open>location\<close> the call fails there, and with it the page reload is
  called and then the call returns what \<open>req.json()\<close> gives: the list of files of the
  response still reaches the caller, after the three effects.
\<close>

theorem fetchFileList_space_mismatch:
  "responses h (snd (fetchFileList h this)) = [Inr r] \<and> \<not> (status r = 401 \<or> redirected r) \<and>
   expectedSpacePath this = Some e \<and> e \<noteq> [] \<and>
   headers_get (resp_headers r) ''X-Space-Path'' \<noteq> Some e \<longrightarrow>
     fetchFileList h this =
       (case flushCachesAndUnregisterServiceWorker h of
          Some err \<Rightarrow>
            (Inl err,
             [Fetch (url this)
                (with_cookie this \<lparr>req_method = ''GET'', headers = None, body = None\<rparr>),
              FlushCaches])
        | None \<Rightarrow>
            if \<not> alert_defined h then
              (Inl (ReferenceError ''alert is not defined''),
               [Fetch (url this)
                  (with_cookie this \<lparr>req_method = ''GET'', headers = None, body = None\<rparr>),
                FlushCaches])
            else if location_defined h then
              (json h (resp_body r),
               [Fetch (url this)
                  (with_cookie this \<lparr>req_method = ''GET'', headers = None, body = None\<rparr>),
                FlushCaches, Alert space_path_alert, Reload])
            else
              (Inl (ReferenceError ''location is not defined''),
               [Fetch (url this)
                  (with_cookie this \<lparr>req_method = ''GET'', headers = None, body = None\<rparr>),
                FlushCaches, Alert space_path_alert]))"
proof
  assume a: "responses h (snd (fetchFileList h this)) = [Inr r] \<and>
    \<not> (status r = 401 \<or> redirected r) \<and> expectedSpacePath this = Some e \<and> e \<noteq> [] \<and>
    headers_get (resp_headers r) ''X-Space-Path'' \<noteq> Some e"
  let ?o = "with_cookie this \<lparr>req_method = ''GET'', headers = None, body = None\<rparr>"
  from a have f: "fetch h (url this) ?o = Inr r"
    by (simp add: fetchFileList_responses)
  from a have n: "\<not> auth_failure r"
    by (simp add: auth_failure_def)
  from f n have af: "authenticatedFetch h this (url this)
      \<lparr>req_method = ''GET'', headers = None, body = None\<rparr> = (Inr r, [Fetch (url this) ?o])"
    by (simp add: authenticatedFetch_cases)
  from a have t: "truthy_string (expectedSpacePath this)"
    by (simp add: truthy_string_def)
  from a af t show "fetchFileList h this =
       (case flushCachesAndUnregisterServiceWorker h of
          Some err \<Rightarrow> (Inl err, [Fetch (url this) ?o, FlushCaches])
        | None \<Rightarrow>
            if \<not> alert_defined h then
              (Inl (ReferenceError ''alert is not defined''),
               [Fetch (url this) ?o, FlushCaches])
            else if location_defined h then
              (json h (resp_body r),
               [Fetch (url this) ?o, FlushCaches, Alert space_path_alert, Reload])
            else
              (Inl (ReferenceError ''location is not defined''),
               [Fetch (url this) ?o, FlushCaches, Alert space_path_alert]))"
    by (simp add: fetchFileList_def split: option.splits)
qed

text \<open>
  Three runs on the response of a server of another space, whose body is the document
  of one file: in a browser, in a runtime with neither \<open>alert\<close> nor \<open>location\<close>, and
  in a runtime that has \<open>alert\<close> only.
\<close>

theorem fetchFileList_space_mismatch_witness:
  "expectedSpacePath example_space = Some ''/space'' \<and>
   headers_get
     (resp_headers ((example_response 200 False [(''X-Space-Path'', ''/other'')])
                      \<lparr>resp_body := example_list_body\<rparr>))
     ''X-Space-Path'' = Some ''/other'' \<and>
   fetchFileList
     (example_host True ((example_response 200 False [(''X-Space-Path'', ''/other'')])
                           \<lparr>resp_body := example_list_body\<rparr>))
     example_space
     = (Inr [\<lparr>name = ''index.md'', fsize = Finite 5, contentType = Some ''text/markdown'',
              lastModified = Finite 1, perm = ''rw''\<rparr>],
        [Fetch ''http://host/fs'' \<lparr>req_method = ''GET'', headers = None, body = None\<rparr>,
         FlushCaches,
         Alert ''Space folder path different on server, reloading the page'',
         Reload]) \<and>
   fetchFileList
     (example_host False ((example_response 200 False [(''X-Space-Path'', ''/other'')])
                            \<lparr>resp_body := example_list_body\<rparr>))
     example_space
     = (Inl (ReferenceError ''alert is not defined''),
        [Fetch ''http://host/fs'' \<lparr>req_method = ''GET'', headers = None, body = None\<rparr>,
         FlushCaches]) \<and>
   fetchFileList
     ((example_host False ((example_response 200 False [(''X-Space-Path'', ''/other'')])
                             \<lparr>resp_body := example_list_body\<rparr>))
        \<lparr>alert_defined := True\<rparr>)
     example_space
     = (Inl (ReferenceError ''location is not defined''),
        [Fetch ''http://host/fs'' \<lparr>req_method = ''GET'', headers = None, body = None\<rparr>,
         FlushCaches,
         Alert ''Space folder path different on server, reloading the page''])"
  using fetchFileList_space_mismatch
    [of "example_host True ((example_response 200 False [(''X-Space-Path'', ''/other'')])
                              \<lparr>resp_body := example_list_body\<rparr>)"
        example_space
        "(example_response 200 False [(''X-Space-Path'', ''/other'')])
           \<lparr>resp_body := example_list_body\<rparr>" "''/space''"]
    fetchFileList_space_mismatch
    [of "example_host False ((example_response 200 False [(''X-Space-Path'', ''/other'')])
                               \<lparr>resp_body := example_list_body\<rparr>)"
        example_space
        "(example_response 200 False [(''X-Space-Path'', ''/other'')])
           \<lparr>resp_body := example_list_body\<rparr>" "''/space''"]
    fetchFileList_space_mismatch
    [of "(example_host False ((example_response 200 False [(''X-Space-Path'', ''/other'')])
                                \<lparr>resp_body := example_list_body\<rparr>))
           \<lparr>alert_defined := True\<rparr>"
        example_space
        "(example_response 200 False [(''X-Space-Path'', ''/other'')])
           \<lparr>resp_body := example_list_body\<rparr>" "''/space''"]
  by (simp add: fetchFileList_responses headers_get_def to_lower_def with_cookie_def
      space_path_alert_def example_json_def example_list_def example_defs)

text \<open>
  The claim as it was written fails in a browser, where the server names another space
  and answers with the document of one file: the header differs from the expected path,
  and the call still returns the list of that file. The same host rejects an empty body.
\<close>

theorem fetchFileList_mismatch_returns_list:
  "expectedSpacePath example_space = Some ''/space'' \<and>
   headers_get
     (resp_headers ((example_response 200 False [(''X-Space-Path'', ''/elsewhere'')])
                      \<lparr>resp_body := example_list_body\<rparr>))
     ''X-Space-Path'' = Some ''/elsewhere'' \<and>
   fst (fetchFileList
          (example_host True ((example_response 200 False [(''X-Space-Path'', ''/elsewhere'')])
                                \<lparr>resp_body := example_list_body\<rparr>))
          example_space)
     = Inr [\<lparr>name = ''index.md'', fsize = Finite 5, contentType = Some ''text/markdown'',
              lastModified = Finite 1, perm = ''rw''\<rparr>] \<and>
   json (example_host True (example_response 200 False [])) [] = Inl (External ''SyntaxError'')"
  by (simp add: fetchFileList_def truthy_string_def headers_get_def to_lower_def
      example_json_def example_list_def example_list_body_def method_defs example_defs)

end
